theory Spec2Isabelle
  imports Main "HOL-Library.AList"
begin

section \<open>Plugin interface (plugin-interface.ts)\<close>

text \<open>
  The four capability kinds are named records. Only the \<open>name\<close> field is ever read by
  the registry; the remaining fields are carried along unchanged.
\<close>

record PluginCommand =
  cmd_name :: string
  cmd_description :: string

record PluginTool =
  tool_name :: string
  tool_description :: string

record PluginTheme =
  theme_name :: string
  theme_description :: string

record PluginExtension =
  ext_name :: string
  ext_type :: string

text \<open>
  A JavaScript \<open>Map\<close> iterates in insertion order, \<open>set\<close> on a present key keeps the
  key's position and \<open>delete\<close> removes the entry: this is an association list with
  \<open>AList.update\<close>, \<open>AList.delete\<close> and \<open>map_of\<close>.
\<close>

section \<open>Capability registry (plugin-registry.ts)\<close>

record PluginRegistry =
  commands :: "(string \<times> PluginCommand) list"
  tools :: "(string \<times> PluginTool) list"
  themes :: "(string \<times> PluginTheme) list"
  extensions :: "(string \<times> PluginExtension) list"
  pluginOwnership :: "(string \<times> string) list"

definition empty_registry :: PluginRegistry where
  "empty_registry =
     \<lparr>commands = [], tools = [], themes = [], extensions = [], pluginOwnership = []\<rparr>"

text \<open>The handles returned by \<open>getCommandRegistry\<close> and its three siblings.\<close>

definition registerCommand :: "PluginCommand \<Rightarrow> PluginRegistry \<Rightarrow> PluginRegistry" where
  "registerCommand command r =
     r\<lparr>commands := AList.update (cmd_name command) command (commands r),
       pluginOwnership :=
         AList.update (''command:'' @ cmd_name command) ''unknown'' (pluginOwnership r)\<rparr>"

definition unregisterCommand :: "string \<Rightarrow> PluginRegistry \<Rightarrow> PluginRegistry" where
  "unregisterCommand name r =
     r\<lparr>commands := AList.delete name (commands r),
       pluginOwnership := AList.delete (''command:'' @ name) (pluginOwnership r)\<rparr>"

definition registerTool :: "PluginTool \<Rightarrow> PluginRegistry \<Rightarrow> PluginRegistry" where
  "registerTool tool r =
     r\<lparr>tools := AList.update (tool_name tool) tool (tools r),
       pluginOwnership :=
         AList.update (''tool:'' @ tool_name tool) ''unknown'' (pluginOwnership r)\<rparr>"

definition unregisterTool :: "string \<Rightarrow> PluginRegistry \<Rightarrow> PluginRegistry" where
  "unregisterTool name r =
     r\<lparr>tools := AList.delete name (tools r),
       pluginOwnership := AList.delete (''tool:'' @ name) (pluginOwnership r)\<rparr>"

definition registerTheme :: "PluginTheme \<Rightarrow> PluginRegistry \<Rightarrow> PluginRegistry" where
  "registerTheme theme r =
     r\<lparr>themes := AList.update (theme_name theme) theme (themes r),
       pluginOwnership :=
         AList.update (''theme:'' @ theme_name theme) ''unknown'' (pluginOwnership r)\<rparr>"

definition unregisterTheme :: "string \<Rightarrow> PluginRegistry \<Rightarrow> PluginRegistry" where
  "unregisterTheme name r =
     r\<lparr>themes := AList.delete name (themes r),
       pluginOwnership := AList.delete (''theme:'' @ name) (pluginOwnership r)\<rparr>"

definition registerExtension :: "PluginExtension \<Rightarrow> PluginRegistry \<Rightarrow> PluginRegistry" where
  "registerExtension extension r =
     r\<lparr>extensions := AList.update (ext_name extension) extension (extensions r),
       pluginOwnership :=
         AList.update (''extension:'' @ ext_name extension) ''unknown'' (pluginOwnership r)\<rparr>"

definition unregisterExtension :: "string \<Rightarrow> PluginRegistry \<Rightarrow> PluginRegistry" where
  "unregisterExtension name r =
     r\<lparr>extensions := AList.delete name (extensions r),
       pluginOwnership := AList.delete (''extension:'' @ name) (pluginOwnership r)\<rparr>"

text \<open>
  \<open>capability.split(':')\<close>: the pieces between colons, always at least one piece.
\<close>

fun split_colon :: "string \<Rightarrow> string list" where
  "split_colon [] = [[]]"
| "split_colon (c # cs) =
     (if c = CHR '':'' then [] # split_colon cs
      else (case split_colon cs of
              [] \<Rightarrow> [[c]]
            | w # ws \<Rightarrow> (c # w) # ws))"

text \<open>
  The destructuring \<open>const [type, name] = capability.split(':')\<close> keeps the first two
  pieces; \<open>name\<close> is \<open>undefined\<close> (here \<open>None\<close>) when there is no second piece, and
  deleting the key \<open>undefined\<close> from a map of strings removes nothing.
\<close>

definition capability_type :: "string \<Rightarrow> string" where
  "capability_type capability = (case split_colon capability of [] \<Rightarrow> [] | t # _ \<Rightarrow> t)"

definition capability_name :: "string \<Rightarrow> string option" where
  "capability_name capability =
     (case split_colon capability of t # n # _ \<Rightarrow> Some n | _ \<Rightarrow> None)"

definition delete_opt :: "string option \<Rightarrow> (string \<times> 'v) list \<Rightarrow> (string \<times> 'v) list" where
  "delete_opt name al = (case name of None \<Rightarrow> al | Some n \<Rightarrow> AList.delete n al)"

text \<open>The body of the loop of \<open>unregisterPlugin\<close> for one ownership entry.\<close>

definition unregister_entry :: "string \<Rightarrow> string \<times> string \<Rightarrow> PluginRegistry \<Rightarrow> PluginRegistry" where
  "unregister_entry pluginName entry r =
     (let capability = fst entry; owner = snd entry in
      if owner = pluginName then
        (let type = capability_type capability;
             name = capability_name capability;
             r1 = (if type = ''command'' then r\<lparr>commands := delete_opt name (commands r)\<rparr>
                   else if type = ''tool'' then r\<lparr>tools := delete_opt name (tools r)\<rparr>
                   else if type = ''theme'' then r\<lparr>themes := delete_opt name (themes r)\<rparr>
                   else if type = ''extension''
                     then r\<lparr>extensions := delete_opt name (extensions r)\<rparr>
                   else r)
         in r1\<lparr>pluginOwnership := AList.delete capability (pluginOwnership r1)\<rparr>)
      else r)"

text \<open>
  The loop runs over the entries of the ownership map; the only entry it deletes is the
  one it is visiting, so every entry present at the start is visited once.
\<close>

definition unregisterPlugin :: "string \<Rightarrow> PluginRegistry \<Rightarrow> PluginRegistry" where
  "unregisterPlugin pluginName r = fold (unregister_entry pluginName) (pluginOwnership r) r"

record PluginCapabilities =
  cap_commands :: "PluginCommand list"
  cap_tools :: "PluginTool list"
  cap_themes :: "PluginTheme list"
  cap_extensions :: "PluginExtension list"

definition no_capabilities :: PluginCapabilities where
  "no_capabilities = \<lparr>cap_commands = [], cap_tools = [], cap_themes = [], cap_extensions = []\<rparr>"

definition lookup_opt :: "string option \<Rightarrow> (string \<times> 'v) list \<Rightarrow> 'v list" where
  "lookup_opt name al =
     (case name of
        None \<Rightarrow> []
      | Some n \<Rightarrow> (case map_of al n of None \<Rightarrow> [] | Some v \<Rightarrow> [v]))"

definition collect_entry ::
  "PluginRegistry \<Rightarrow> string \<Rightarrow> string \<times> string \<Rightarrow> PluginCapabilities \<Rightarrow> PluginCapabilities" where
  "collect_entry r pluginName entry acc =
     (let capability = fst entry; owner = snd entry in
      if owner = pluginName then
        (let type = capability_type capability;
             name = capability_name capability
         in if type = ''command''
              then acc\<lparr>cap_commands := cap_commands acc @ lookup_opt name (commands r)\<rparr>
            else if type = ''tool''
              then acc\<lparr>cap_tools := cap_tools acc @ lookup_opt name (tools r)\<rparr>
            else if type = ''theme''
              then acc\<lparr>cap_themes := cap_themes acc @ lookup_opt name (themes r)\<rparr>
            else if type = ''extension''
              then acc\<lparr>cap_extensions := cap_extensions acc @ lookup_opt name (extensions r)\<rparr>
            else acc)
      else acc)"

definition getPluginCapabilities :: "string \<Rightarrow> PluginRegistry \<Rightarrow> PluginCapabilities" where
  "getPluginCapabilities pluginName r =
     fold (collect_entry r pluginName) (pluginOwnership r) no_capabilities"

text \<open>
  The keys that the four \<open>register\<close> handles write for a name without a colon: they
  split into exactly a kind and a name. (Not part of the source; used to state for which
  registries \<open>unregisterPlugin\<close> revokes exactly what its owner holds.)
\<close>

definition capability_kinds :: "string list" where
  "capability_kinds = [''command'', ''tool'', ''theme'', ''extension'']"

definition well_formed_key :: "string \<Rightarrow> bool" where
  "well_formed_key k =
     (case split_colon k of
        [t, c] \<Rightarrow> t \<in> set capability_kinds
      | _ \<Rightarrow> False)"


section \<open>Plugins and their environment\<close>

text \<open>A thrown JavaScript value, identified by its message.\<close>

datatype js_error = Error string

fun message :: "js_error \<Rightarrow> string" where
  "message (Error m) = m"

text \<open>
  \<open>PluginMetadata\<close> as read from \<open>package.json\<close>. A string field that is absent and one
  that is empty are both falsy, and the code only ever tests truthiness before it reads
  them, so an absent string field is the empty string here. \<open>compatibility\<close> is an
  object, truthy whenever present.
\<close>

record PluginMetadata =
  md_name :: string
  md_version :: string
  md_description :: string
  md_author :: string
  md_type :: string
  md_entryPoint :: string
  md_compatibility :: "(string \<times> string) list option"

record PackageJson =
  pj_metadata :: PluginMetadata
  pj_scripts_build :: bool

text \<open>
  Plugin code is opaque to the manager. A lifecycle hook is called without arguments and
  is modelled by its outcome when awaited; a registration hook by the calls it makes on
  the registry handle it is given, in order, and the error it throws after them, if any.
  A hook that the plugin does not define is \<open>None\<close>.
\<close>

datatype hook_result = Returns | Throws js_error

datatype 'c registry_call = Register 'c | Unregister string

type_synonym 'c registration = "'c registry_call list \<times> js_error option"

record GeminiPlugin =
  metadata :: "PluginMetadata option"
  onInstall :: "hook_result option"
  onUninstall :: "hook_result option"
  onEnable :: "hook_result option"
  onDisable :: "hook_result option"
  registerCommands :: "PluginCommand registration option"
  registerTools :: "PluginTool registration option"
  registerThemes :: "PluginTheme registration option"
  registerExtensions :: "PluginExtension registration option"

record PluginContext =
  ctx_workspaceRoot :: string
  ctx_pluginRoot :: string
  ctx_config :: "(string \<times> string) list"
  ctx_logger_prefix :: string

record PluginInstallResult =
  success :: bool
  plugin :: "GeminiPlugin option"
  error :: "string option"

definition failed :: "string \<Rightarrow> PluginInstallResult" where
  "failed msg = \<lparr>success = False, plugin = None, error = Some msg\<rparr>"

text \<open>
  A plugin class is what \<open>new PluginClass(context)\<close> does: it throws or yields the plugin
  object. A module is its exports by name (\<open>default\<close> included); a file is what
  importing it yields.
\<close>

type_synonym plugin_class = "PluginContext \<Rightarrow> js_error + GeminiPlugin"

type_synonym plugin_module = "(string \<times> plugin_class) list"

type_synonym module_file = "js_error + plugin_module"

text \<open>
  A plugin directory: \<open>package.json\<close> and \<open>config.json\<close> (absent, unparsable with the
  error \<open>JSON.parse\<close> throws, or parsed) and the other files by relative path.
\<close>

record plugin_dir =
  package_json :: "(js_error + PackageJson) option"
  config_json :: "(js_error + (string \<times> string) list) option"
  files :: "(string \<times> module_file) list"

definition empty_dir :: plugin_dir where
  "empty_dir = \<lparr>package_json = None, config_json = None, files = []\<rparr>"

text \<open>
  The content of \<open>enabled.json\<close>, by what \<open>loadEnabledPlugins\<close> can observe of it:
  text that \<open>JSON.parse\<close> rejects; the value \<open>null\<close>, whose property read throws; a
  value whose \<open>plugins\<close> property is absent or falsy; a truthy \<open>plugins\<close> that is not
  iterable, on which \<open>new Set\<close> throws; or a list of names (the set is declared
  \<open>Set<string>\<close>).
\<close>

datatype enabled_json =
    NotJson
  | JsonNull
  | JsonNoPlugins
  | JsonPluginsNotIterable
  | JsonPlugins "string list"

text \<open>
  The processes and places the installer reaches outside the plugin root, each by its
  outcome: \<open>npm install <name> --prefix <dir>\<close> (it throws, or leaves the package
  directory under \<open>node_modules\<close>, or leaves none); \<open>git clone <url> <dir>\<close>; the
  directory at a local path, if it exists; \<open>npm install\<close> and \<open>npm run build\<close> run
  inside a plugin directory.
\<close>

record external =
  npm_install :: "string \<Rightarrow> js_error + plugin_dir option"
  git_clone :: "string \<Rightarrow> js_error + plugin_dir"
  local_dir :: "string \<Rightarrow> plugin_dir option"
  npm_deps :: "plugin_dir \<Rightarrow> js_error option"
  npm_build :: "plugin_dir \<Rightarrow> js_error + plugin_dir"

datatype console_entry = Warn string js_error | ConsoleError string js_error

text \<open>
  A record of the calls made across component boundaries, kept beside the state so that
  "is attempted", "is skipped" and "is delegated" can be stated. It is write-only.
\<close>

datatype call =
    CallLoadPlugin string
  | CallHook string string
  | CallInstallerUninstall string

section \<open>Plugin manager (plugin-manager.ts)\<close>

text \<open>
  The fields of \<open>PluginManager\<close>, followed by the part of the world it acts on: the
  files under the plugin root, whether writing or removing them fails (\<open>write_error\<close>
  and \<open>rm_error\<close>: when set, every \<open>writeFileSync\<close>/\<open>mkdirSync\<close>, respectively every
  \<open>rmSync\<close>, under the plugin root throws that error), the console and the call record.
  A \<open>Set\<close> iterates in insertion order and is a duplicate-free list.
\<close>

record PluginManager =
  plugins :: "(string \<times> GeminiPlugin) list"
  registry :: PluginRegistry
  pluginRoot :: string
  enabledPlugins :: "string list"
  pluginContexts :: "(string \<times> PluginContext) list"
  enabled_file :: "enabled_json option"
  plugin_dirs :: "(string \<times> plugin_dir) list"
  write_error :: "js_error option"
  rm_error :: "js_error option"
  outside :: external
  console :: "console_entry list"
  calls :: "call list"

definition set_add :: "'a \<Rightarrow> 'a list \<Rightarrow> 'a list" where
  "set_add x xs = (if x \<in> set xs then xs else xs @ [x])"

definition set_delete :: "'a \<Rightarrow> 'a list \<Rightarrow> 'a list" where
  "set_delete x xs = removeAll x xs"

definition new_Set :: "'a list \<Rightarrow> 'a list" where
  "new_Set xs = fold set_add xs []"

definition path_join :: "string \<Rightarrow> string \<Rightarrow> string" where
  "path_join a b = a @ ''/'' @ b"

definition dirname :: "string \<Rightarrow> string" where
  "dirname p =
     (if CHR ''/'' \<in> set p
      then rev (drop 1 (dropWhile (\<lambda>c. c \<noteq> CHR ''/'') (rev p)))
      else ''.'')"

text \<open>
  \<open>JSON.parse(fs.readFileSync(enabledFile))\<close>, \<open>enabled.plugins || []\<close> and
  \<open>new Set(...)\<close>: the names read, or the error thrown on the way.
\<close>

fun read_enabled :: "enabled_json \<Rightarrow> js_error + string list" where
  "read_enabled NotJson = Inl (Error ''SyntaxError: Unexpected token'')"
| "read_enabled JsonNull = Inl (Error ''TypeError: Cannot read properties of null'')"
| "read_enabled JsonNoPlugins = Inr (new_Set [])"
| "read_enabled JsonPluginsNotIterable = Inl (Error ''TypeError: object is not iterable'')"
| "read_enabled (JsonPlugins names) = Inr (new_Set names)"

definition loadEnabledPlugins :: "PluginManager \<Rightarrow> PluginManager" where
  "loadEnabledPlugins s =
     (case enabled_file s of
        None \<Rightarrow> s
      | Some content \<Rightarrow>
          (case read_enabled content of
             Inr names \<Rightarrow> s\<lparr>enabledPlugins := names\<rparr>
           | Inl e \<Rightarrow>
               s\<lparr>console := console s @ [Warn ''Failed to load enabled plugins:'' e],
                 enabledPlugins := []\<rparr>))"

definition saveEnabledPlugins :: "PluginManager \<Rightarrow> js_error option \<times> PluginManager" where
  "saveEnabledPlugins s =
     (case write_error s of
        Some e \<Rightarrow> (Some e, s)
      | None \<Rightarrow> (None, s\<lparr>enabled_file := Some (JsonPlugins (enabledPlugins s))\<rparr>))"

text \<open>
  The manager as the constructor leaves it before any plugin is loaded: empty maps, then
  \<open>loadEnabledPlugins\<close>. The world is a parameter.
\<close>

definition fresh_manager ::
  "string \<Rightarrow> enabled_json option \<Rightarrow> (string \<times> plugin_dir) list \<Rightarrow> external \<Rightarrow> PluginManager" where
  "fresh_manager workspaceRoot enabledFile dirs ext =
     \<lparr>plugins = [], registry = empty_registry,
      pluginRoot = path_join (path_join workspaceRoot ''.gemini'') ''plugins'',
      enabledPlugins = [], pluginContexts = [],
      enabled_file = enabledFile, plugin_dirs = dirs,
      write_error = None, rm_error = None, outside = ext,
      console = [], calls = []\<rparr>"

definition new_PluginManager ::
  "string \<Rightarrow> enabled_json option \<Rightarrow> (string \<times> plugin_dir) list \<Rightarrow> external \<Rightarrow> PluginManager" where
  "new_PluginManager workspaceRoot enabledFile dirs ext =
     loadEnabledPlugins (fresh_manager workspaceRoot enabledFile dirs ext)"

text \<open>\<open>if (hook) await hook()\<close>: the error thrown, if any.\<close>

definition invoke ::
  "string \<Rightarrow> string \<Rightarrow> hook_result option \<Rightarrow> PluginManager \<Rightarrow> js_error option \<times> PluginManager" where
  "invoke pluginName hookName hook s =
     (case hook of
        None \<Rightarrow> (None, s)
      | Some Returns \<Rightarrow> (None, s\<lparr>calls := calls s @ [CallHook pluginName hookName]\<rparr>)
      | Some (Throws e) \<Rightarrow> (Some e, s\<lparr>calls := calls s @ [CallHook pluginName hookName]\<rparr>))"

text \<open>
  The required fields in the order \<open>validatePluginMetadata\<close> and
  \<open>validateInstallation\<close> test them, each with its truthiness.
\<close>

definition required_fields :: "PluginMetadata \<Rightarrow> (string \<times> bool) list" where
  "required_fields m =
     [(''name'', md_name m \<noteq> []),
      (''version'', md_version m \<noteq> []),
      (''description'', md_description m \<noteq> []),
      (''author'', md_author m \<noteq> []),
      (''type'', md_type m \<noteq> []),
      (''entryPoint'', md_entryPoint m \<noteq> []),
      (''compatibility'', md_compatibility m \<noteq> None)]"

definition first_missing :: "PluginMetadata \<Rightarrow> string option" where
  "first_missing m =
     (case filter (\<lambda>f. \<not> snd f) (required_fields m) of
        [] \<Rightarrow> None
      | f # _ \<Rightarrow> Some (fst f))"

definition validatePluginMetadata :: "PluginMetadata \<Rightarrow> bool" where
  "validatePluginMetadata m = (first_missing m = None)"

definition loadPluginConfig ::
  "string \<Rightarrow> plugin_dir \<Rightarrow> PluginManager \<Rightarrow> (string \<times> string) list \<times> PluginManager" where
  "loadPluginConfig pluginName dir s =
     (case config_json dir of
        None \<Rightarrow> ([], s)
      | Some (Inr cfg) \<Rightarrow> (cfg, s)
      | Some (Inl e) \<Rightarrow>
          ([], s\<lparr>console := console s
                  @ [Warn (''Failed to load config for plugin '' @ pluginName @ '':'') e]\<rparr>))"

text \<open>One registration hook run on the registry: its calls in order, then its throw.\<close>

definition run_calls ::
  "('c \<Rightarrow> PluginRegistry \<Rightarrow> PluginRegistry) \<Rightarrow> (string \<Rightarrow> PluginRegistry \<Rightarrow> PluginRegistry) \<Rightarrow>
   'c registry_call list \<Rightarrow> PluginRegistry \<Rightarrow> PluginRegistry" where
  "run_calls reg unreg cs r =
     fold (\<lambda>c. case c of Register x \<Rightarrow> reg x | Unregister n \<Rightarrow> unreg n) cs r"

definition run_registration ::
  "('c \<Rightarrow> PluginRegistry \<Rightarrow> PluginRegistry) \<Rightarrow> (string \<Rightarrow> PluginRegistry \<Rightarrow> PluginRegistry) \<Rightarrow>
   'c registration option \<Rightarrow> PluginRegistry \<Rightarrow> js_error option \<times> PluginRegistry" where
  "run_registration reg unreg hook r =
     (case hook of
        None \<Rightarrow> (None, r)
      | Some h \<Rightarrow> (snd h, run_calls reg unreg (fst h) r))"

definition registerPluginCapabilities ::
  "GeminiPlugin \<Rightarrow> PluginRegistry \<Rightarrow> js_error option \<times> PluginRegistry" where
  "registerPluginCapabilities p r =
     (case run_registration registerCommand unregisterCommand (registerCommands p) r of
        (Some e, r1) \<Rightarrow> (Some e, r1)
      | (None, r1) \<Rightarrow>
     (case run_registration registerTool unregisterTool (registerTools p) r1 of
        (Some e, r2) \<Rightarrow> (Some e, r2)
      | (None, r2) \<Rightarrow>
     (case run_registration registerTheme unregisterTheme (registerThemes p) r2 of
        (Some e, r3) \<Rightarrow> (Some e, r3)
      | (None, r3) \<Rightarrow>
          run_registration registerExtension unregisterExtension (registerExtensions p) r3)))"

text \<open>\<open>pluginModule.default || pluginModule[metadata.name] || pluginModule.Plugin\<close>\<close>

definition find_PluginClass :: "plugin_module \<Rightarrow> PluginMetadata \<Rightarrow> plugin_class option" where
  "find_PluginClass pluginModule m =
     (case map_of pluginModule ''default'' of
        Some c \<Rightarrow> Some c
      | None \<Rightarrow>
          (case map_of pluginModule (md_name m) of
             Some c \<Rightarrow> Some c
           | None \<Rightarrow> map_of pluginModule ''Plugin''))"

definition make_context :: "string \<Rightarrow> (string \<times> string) list \<Rightarrow> PluginManager \<Rightarrow> PluginContext" where
  "make_context pluginName cfg s =
     \<lparr>ctx_workspaceRoot = dirname (pluginRoot s),
      ctx_pluginRoot = path_join (pluginRoot s) pluginName,
      ctx_config = cfg,
      ctx_logger_prefix = pluginName\<rparr>"

text \<open>\<open>!plugin.metadata || plugin.metadata.name !== metadata.name\<close>, negated.\<close>

definition implements_interface :: "GeminiPlugin \<Rightarrow> PluginMetadata \<Rightarrow> bool" where
  "implements_interface p m =
     (case metadata p of None \<Rightarrow> False | Some pm \<Rightarrow> md_name pm = md_name m)"

text \<open>
  The \<open>try\<close> block of \<open>loadPlugin\<close>: \<open>Inr\<close> is a returned result, \<open>Inl\<close> an error thrown
  out of the block. The state is the one reached when the block is left.
\<close>

definition loadPlugin_try ::
  "string \<Rightarrow> PluginManager \<Rightarrow> (js_error + PluginInstallResult) \<times> PluginManager" where
  "loadPlugin_try pluginName s =
     (case map_of (plugin_dirs s) pluginName of
        None \<Rightarrow> (Inr (failed (''Plugin '' @ pluginName @ '' not found'')), s)
      | Some dir \<Rightarrow>
     (case package_json dir of
        None \<Rightarrow> (Inr (failed (''Plugin '' @ pluginName @ '' missing package.json'')), s)
      | Some (Inl e) \<Rightarrow> (Inl e, s)
      | Some (Inr pj) \<Rightarrow>
     (let m = pj_metadata pj in
      if \<not> validatePluginMetadata m
      then (Inr (failed (''Plugin '' @ pluginName @ '' has invalid metadata'')), s)
      else
     (case map_of (files dir) (md_entryPoint m) of
        None \<Rightarrow>
          (Inr (failed (''Plugin '' @ pluginName @ '' entry point not found: ''
                  @ path_join (path_join (pluginRoot s) pluginName) (md_entryPoint m))), s)
      | Some (Inl e) \<Rightarrow> (Inl e, s)
      | Some (Inr pluginModule) \<Rightarrow>
     (case find_PluginClass pluginModule m of
        None \<Rightarrow>
          (Inr (failed (''Plugin '' @ pluginName @ '' does not export a valid plugin class'')), s)
      | Some PluginClass \<Rightarrow>
     (let cfg_s = loadPluginConfig pluginName dir s;
          s1 = snd cfg_s;
          context = make_context pluginName (fst cfg_s) s1
      in
      case PluginClass context of
        Inl e \<Rightarrow> (Inl e, s1)
      | Inr p \<Rightarrow>
          if \<not> implements_interface p m
          then (Inr (failed (''Plugin '' @ pluginName
                              @ '' does not implement required interface'')), s1)
          else
            (let s2 = s1\<lparr>plugins := AList.update pluginName p (plugins s1),
                         pluginContexts :=
                           AList.update pluginName context (pluginContexts s1)\<rparr>
             in
             case registerPluginCapabilities p (registry s2) of
               (Some e, r) \<Rightarrow> (Inl e, s2\<lparr>registry := r\<rparr>)
             | (None, r) \<Rightarrow>
                 (let s3 = s2\<lparr>registry := r\<rparr> in
                  if pluginName \<in> set (enabledPlugins s3)
                  then (case invoke pluginName ''onEnable'' (onEnable p) s3 of
                          (Some e, s4) \<Rightarrow> (Inl e, s4)
                        | (None, s4) \<Rightarrow>
                            (Inr \<lparr>success = True, plugin = Some p, error = None\<rparr>, s4))
                  else (Inr \<lparr>success = True, plugin = Some p, error = None\<rparr>, s3)))))))))"

definition loadPlugin :: "string \<Rightarrow> PluginManager \<Rightarrow> PluginInstallResult \<times> PluginManager" where
  "loadPlugin pluginName s =
     (case loadPlugin_try pluginName (s\<lparr>calls := calls s @ [CallLoadPlugin pluginName]\<rparr>) of
        (Inr result, s') \<Rightarrow> (result, s')
      | (Inl e, s') \<Rightarrow>
          (failed (''Failed to load plugin '' @ pluginName @ '': '' @ message e), s'))"


section \<open>Plugin installer (plugin-installer.ts)\<close>

definition succeeded :: PluginInstallResult where
  "succeeded = \<lparr>success = True, plugin = None, error = None\<rparr>"

definition installer_uninstall :: "string \<Rightarrow> PluginManager \<Rightarrow> js_error option \<times> PluginManager" where
  "installer_uninstall pluginName s =
     (let s0 = s\<lparr>calls := calls s @ [CallInstallerUninstall pluginName]\<rparr> in
      case map_of (plugin_dirs s0) pluginName of
        None \<Rightarrow> (None, s0)
      | Some dir \<Rightarrow>
          (case rm_error s0 of
             Some e \<Rightarrow> (Some e, s0)
           | None \<Rightarrow> (None, s0\<lparr>plugin_dirs := AList.delete pluginName (plugin_dirs s0)\<rparr>)))"

text \<open>\<open>fs.mkdirSync(pluginDir, { recursive: true })\<close>\<close>

definition mkdir :: "string \<Rightarrow> PluginManager \<Rightarrow> js_error option \<times> PluginManager" where
  "mkdir pluginName s =
     (case map_of (plugin_dirs s) pluginName of
        Some dir \<Rightarrow> (None, s)
      | None \<Rightarrow>
          (case write_error s of
             Some e \<Rightarrow> (Some e, s)
           | None \<Rightarrow> (None, s\<lparr>plugin_dirs := AList.update pluginName empty_dir (plugin_dirs s)\<rparr>)))"

definition validateInstallation :: "string \<Rightarrow> PluginManager \<Rightarrow> PluginInstallResult" where
  "validateInstallation pluginName s =
     (case map_of (plugin_dirs s) pluginName of
        None \<Rightarrow> failed (''Plugin '' @ pluginName @ '' missing package.json'')
      | Some dir \<Rightarrow>
     (case package_json dir of
        None \<Rightarrow> failed (''Plugin '' @ pluginName @ '' missing package.json'')
      | Some (Inl e) \<Rightarrow> failed (''Failed to validate plugin '' @ pluginName @ '': '' @ message e)
      | Some (Inr pj) \<Rightarrow>
     (case first_missing (pj_metadata pj) of
        Some field \<Rightarrow> failed (''Plugin '' @ pluginName @ '' missing required field: '' @ field)
      | None \<Rightarrow>
     (case map_of (files dir) (md_entryPoint (pj_metadata pj)) of
        None \<Rightarrow>
          failed (''Plugin '' @ pluginName @ '' entry point not found: ''
                  @ path_join (path_join (pluginRoot s) pluginName)
                      (md_entryPoint (pj_metadata pj)))
      | Some f \<Rightarrow> succeeded))))"

definition mock_plugins :: "string list" where
  "mock_plugins =
     [''pip-analyzer'', ''code-review-assistant'', ''dark-theme-pro'', ''git-workflow'',
      ''docker-helper'']"

definition mock_metadata :: "string \<Rightarrow> PluginMetadata" where
  "mock_metadata pluginName =
     \<lparr>md_name = pluginName, md_version = ''1.0.0'',
      md_description = ''Mock plugin: '' @ pluginName, md_author = ''demo-user'',
      md_type = ''tool'', md_entryPoint = ''index.js'',
      md_compatibility = Some [(''gemini-cli'', ''>=0.1.0''), (''node'', ''>=18.0.0'')]\<rparr>"

text \<open>
  The generated \<open>index.js\<close>: a class with the mock metadata and the two hooks
  \<open>onEnable\<close> and \<open>onDisable\<close>, assigned to \<open>module.exports\<close>.
\<close>

definition mock_module :: "string \<Rightarrow> plugin_module" where
  "mock_module pluginName =
     [(''default'',
       \<lambda>context. Inr \<lparr>metadata = Some (mock_metadata pluginName),
                       onInstall = None, onUninstall = None,
                       onEnable = Some Returns, onDisable = Some Returns,
                       registerCommands = None, registerTools = None,
                       registerThemes = None, registerExtensions = None\<rparr>)]"

definition createMockPlugin :: "string \<Rightarrow> PluginManager \<Rightarrow> PluginInstallResult \<times> PluginManager" where
  "createMockPlugin pluginName s =
     (case map_of (plugin_dirs s) pluginName of
        None \<Rightarrow>
          (failed (''Failed to create mock plugin '' @ pluginName @ '': ''
                   @ ''ENOENT: no such file or directory''), s)
      | Some dir \<Rightarrow>
          (case write_error s of
             Some e \<Rightarrow>
               (failed (''Failed to create mock plugin '' @ pluginName @ '': '' @ message e), s)
           | None \<Rightarrow>
               (succeeded,
                s\<lparr>plugin_dirs :=
                    AList.update pluginName
                      (dir\<lparr>package_json :=
                             Some (Inr \<lparr>pj_metadata = mock_metadata pluginName,
                                        pj_scripts_build = False\<rparr>),
                           files :=
                             AList.update ''README.md''
                               (Inl (Error ''ERR_UNKNOWN_FILE_EXTENSION''))
                               (AList.update ''index.js'' (Inr (mock_module pluginName))
                                  (files dir))\<rparr>)
                      (plugin_dirs s)\<rparr>)))"

text \<open>\<open>copyDirectory(src, pluginDir)\<close> into the plugin's (freshly made) directory.\<close>

definition copy_into :: "string \<Rightarrow> plugin_dir \<Rightarrow> PluginManager \<Rightarrow> js_error option \<times> PluginManager" where
  "copy_into pluginName src s =
     (case write_error s of
        Some e \<Rightarrow> (Some e, s)
      | None \<Rightarrow> (None, s\<lparr>plugin_dirs := AList.update pluginName src (plugin_dirs s)\<rparr>))"

definition installFromNpm_try ::
  "string \<Rightarrow> PluginManager \<Rightarrow> (js_error + PluginInstallResult) \<times> PluginManager" where
  "installFromNpm_try pluginName s =
     (case mkdir pluginName s of
        (Some e, s1) \<Rightarrow> (Inl e, s1)
      | (None, s1) \<Rightarrow>
          if pluginName \<in> set mock_plugins
          then (Inr (fst (createMockPlugin pluginName s1)), snd (createMockPlugin pluginName s1))
          else
            (case npm_install (outside s1) pluginName of
               Inl e \<Rightarrow> (Inl e, s1)
             | Inr None \<Rightarrow>
                 (Inr (failed (''Plugin '' @ pluginName @ '' not found in npm registry'')), s1)
             | Inr (Some package) \<Rightarrow>
                 (case copy_into pluginName package s1 of
                    (Some e, s2) \<Rightarrow> (Inl e, s2)
                  | (None, s2) \<Rightarrow>
                      (case rm_error s2 of
                         Some e \<Rightarrow> (Inl e, s2)
                       | None \<Rightarrow> (Inr (validateInstallation pluginName s2), s2)))))"

definition installFromNpm :: "string \<Rightarrow> PluginManager \<Rightarrow> PluginInstallResult \<times> PluginManager" where
  "installFromNpm pluginName s =
     (case installFromNpm_try pluginName s of
        (Inr result, s') \<Rightarrow> (result, s')
      | (Inl e, s') \<Rightarrow>
          (failed (''Failed to install plugin '' @ pluginName @ '' from npm: '' @ message e), s'))"

text \<open>
  The steps that \<open>installFromUrl\<close> and \<open>installFromLocalPath\<close> share once the files
  are in place: \<open>npm install\<close> when \<open>package.json\<close> exists, reading \<open>package.json\<close>
  (which throws when it is absent or unparsable), \<open>npm run build\<close> when it has a build
  script, then \<open>validateInstallation\<close>.
\<close>

definition build_and_validate ::
  "string \<Rightarrow> PluginManager \<Rightarrow> (js_error + PluginInstallResult) \<times> PluginManager" where
  "build_and_validate pluginName s =
     (case map_of (plugin_dirs s) pluginName of
        None \<Rightarrow> (Inl (Error ''ENOENT: no such file or directory''), s)
      | Some dir \<Rightarrow>
     (case package_json dir of
        None \<Rightarrow> (Inl (Error ''ENOENT: no such file or directory''), s)
      | Some content \<Rightarrow>
     (case npm_deps (outside s) dir of
        Some e \<Rightarrow> (Inl e, s)
      | None \<Rightarrow>
     (case content of
        Inl e \<Rightarrow> (Inl e, s)
      | Inr pj \<Rightarrow>
          if pj_scripts_build pj
          then (case npm_build (outside s) dir of
                  Inl e \<Rightarrow> (Inl e, s)
                | Inr built \<Rightarrow>
                    (let s1 = s\<lparr>plugin_dirs := AList.update pluginName built (plugin_dirs s)\<rparr>
                     in (Inr (validateInstallation pluginName s1), s1)))
          else (Inr (validateInstallation pluginName s), s)))))"

definition installFromUrl :: "string \<Rightarrow> string \<Rightarrow> PluginManager \<Rightarrow> PluginInstallResult \<times> PluginManager" where
  "installFromUrl pluginName url s =
     (case (case git_clone (outside s) url of
              Inl e \<Rightarrow> (Inl e, s)
            | Inr cloned \<Rightarrow>
                build_and_validate pluginName
                  (s\<lparr>plugin_dirs := AList.update pluginName cloned (plugin_dirs s)\<rparr>)) of
        (Inr result, s') \<Rightarrow> (result, s')
      | (Inl e, s') \<Rightarrow>
          (failed (''Failed to install plugin '' @ pluginName @ '' from URL: '' @ message e), s'))"

definition installFromLocalPath ::
  "string \<Rightarrow> string \<Rightarrow> PluginManager \<Rightarrow> PluginInstallResult \<times> PluginManager" where
  "installFromLocalPath pluginName localPath s =
     (case (case local_dir (outside s) localPath of
              None \<Rightarrow> (Inl (Error ''ENOENT: no such file or directory''), s)
            | Some src \<Rightarrow>
                (case copy_into pluginName src s of
                   (Some e, s1) \<Rightarrow> (Inl e, s1)
                 | (None, s1) \<Rightarrow> build_and_validate pluginName s1)) of
        (Inr result, s') \<Rightarrow> (result, s')
      | (Inl e, s') \<Rightarrow>
          (failed (''Failed to install plugin '' @ pluginName @ '' from local path: ''
                   @ message e), s'))"

definition installFromSource ::
  "string \<Rightarrow> string \<Rightarrow> PluginManager \<Rightarrow> PluginInstallResult \<times> PluginManager" where
  "installFromSource pluginName source s =
     (case mkdir pluginName s of
        (Some e, s1) \<Rightarrow>
          (failed (''Failed to install plugin '' @ pluginName @ '' from source: ''
                   @ message e), s1)
      | (None, s1) \<Rightarrow>
          if source = ''npm'' then installFromNpm pluginName s1
          else if take 4 source = ''http'' then installFromUrl pluginName source s1
          else if take 7 source = ''file://''
            then installFromLocalPath pluginName (drop 7 source) s1
          else if local_dir (outside s1) source \<noteq> None
            then installFromLocalPath pluginName source s1
          else (failed (''Invalid source: '' @ source), s1))"

text \<open>
  \<open>PluginInstaller.install\<close>. The optional \<open>source\<close> is falsy when absent or empty.
\<close>

definition installer_install ::
  "string \<Rightarrow> string option \<Rightarrow> PluginManager \<Rightarrow> PluginInstallResult \<times> PluginManager" where
  "installer_install pluginName source s =
     (case (case map_of (plugin_dirs s) pluginName of
              None \<Rightarrow> (None, s)
            | Some dir \<Rightarrow> installer_uninstall pluginName s) of
        (Some e, s1) \<Rightarrow>
          (failed (''Failed to install plugin '' @ pluginName @ '': '' @ message e), s1)
      | (None, s1) \<Rightarrow>
          (case source of
             None \<Rightarrow> installFromNpm pluginName s1
           | Some src \<Rightarrow>
               if src = [] then installFromNpm pluginName s1
               else installFromSource pluginName src s1))"

section \<open>Lifecycle operations (plugin-manager.ts)\<close>

text \<open>
  \<open>installPlugin\<close>. Neither \<open>installer.install\<close> nor \<open>loadPlugin\<close> can throw (each
  catches everything it runs), so the \<open>catch\<close> of \<open>installPlugin\<close> has no case here.
\<close>

definition installPlugin ::
  "string \<Rightarrow> string option \<Rightarrow> PluginManager \<Rightarrow> PluginInstallResult \<times> PluginManager" where
  "installPlugin pluginName source s =
     (let result = fst (installer_install pluginName source s);
          s1 = snd (installer_install pluginName source s)
      in if success result \<and> plugin result \<noteq> None
         then (result, snd (loadPlugin pluginName s1))
         else (result, s1))"

text \<open>
  The \<open>try\<close> block of \<open>uninstallPlugin\<close>: the error thrown out of it, if any, and the
  state reached.
\<close>

definition uninstallPlugin_try :: "string \<Rightarrow> PluginManager \<Rightarrow> js_error option \<times> PluginManager" where
  "uninstallPlugin_try pluginName s =
     (case (case map_of (plugins s) pluginName of
              None \<Rightarrow> (None, s)
            | Some p \<Rightarrow> invoke pluginName ''onUninstall'' (onUninstall p) s) of
        (Some e, s1) \<Rightarrow> (Some e, s1)
      | (None, s1) \<Rightarrow>
          (let s2 = s1\<lparr>registry := unregisterPlugin pluginName (registry s1)\<rparr>;
               s3 = s2\<lparr>plugins := AList.delete pluginName (plugins s2),
                        pluginContexts := AList.delete pluginName (pluginContexts s2),
                        enabledPlugins := set_delete pluginName (enabledPlugins s2)\<rparr>
           in case saveEnabledPlugins s3 of
                (Some e, s4) \<Rightarrow> (Some e, s4)
              | (None, s4) \<Rightarrow> installer_uninstall pluginName s4))"

text \<open>
  The three operations below are \<open>async\<close>: \<open>Inr b\<close> is a promise resolved with \<open>b\<close>,
  \<open>Inl e\<close> one rejected with \<open>e\<close>.
\<close>

definition uninstallPlugin :: "string \<Rightarrow> PluginManager \<Rightarrow> (js_error + bool) \<times> PluginManager" where
  "uninstallPlugin pluginName s =
     (case uninstallPlugin_try pluginName s of
        (None, s') \<Rightarrow> (Inr True, s')
      | (Some e, s') \<Rightarrow>
          (Inr False,
           s'\<lparr>console := console s'
                @ [ConsoleError (''Failed to uninstall plugin '' @ pluginName @ '':'') e]\<rparr>))"

definition enablePlugin :: "string \<Rightarrow> PluginManager \<Rightarrow> (js_error + bool) \<times> PluginManager" where
  "enablePlugin pluginName s =
     (case map_of (plugins s) pluginName of
        None \<Rightarrow> (Inr False, s)
      | Some p \<Rightarrow>
          (case invoke pluginName ''onEnable'' (onEnable p) s of
             (Some e, s1) \<Rightarrow> (Inl e, s1)
           | (None, s1) \<Rightarrow>
               (case saveEnabledPlugins
                       (s1\<lparr>enabledPlugins := set_add pluginName (enabledPlugins s1)\<rparr>) of
                  (Some e, s2) \<Rightarrow> (Inl e, s2)
                | (None, s2) \<Rightarrow> (Inr True, s2))))"

definition disablePlugin :: "string \<Rightarrow> PluginManager \<Rightarrow> (js_error + bool) \<times> PluginManager" where
  "disablePlugin pluginName s =
     (case map_of (plugins s) pluginName of
        None \<Rightarrow> (Inr False, s)
      | Some p \<Rightarrow>
          (case invoke pluginName ''onDisable'' (onDisable p) s of
             (Some e, s1) \<Rightarrow> (Inl e, s1)
           | (None, s1) \<Rightarrow>
               (case saveEnabledPlugins
                       (s1\<lparr>enabledPlugins := set_delete pluginName (enabledPlugins s1)\<rparr>) of
                  (Some e, s2) \<Rightarrow> (Inl e, s2)
                | (None, s2) \<Rightarrow> (Inr True, s2))))"


section \<open>A concrete plugin and world\<close>

text \<open>
  The plugin \<open>x\<close>: a valid descriptor, an entry point \<open>index.js\<close> whose default export
  builds the plugin object given, and nothing reachable outside the plugin root.
\<close>

definition offline :: external where
  "offline =
     \<lparr>npm_install = (\<lambda>n. Inl (Error ''npm: network unreachable'')),
      git_clone = (\<lambda>u. Inl (Error ''git: network unreachable'')),
      local_dir = (\<lambda>p. None),
      npm_deps = (\<lambda>d. None),
      npm_build = (\<lambda>d. Inr d)\<rparr>"

definition x_metadata :: PluginMetadata where
  "x_metadata =
     \<lparr>md_name = ''x'', md_version = ''1.0.0'', md_description = ''d'', md_author = ''a'',
      md_type = ''tool'', md_entryPoint = ''index.js'',
      md_compatibility = Some [(''gemini-cli'', ''>=0.1.0'')]\<rparr>"

definition x_cmd :: PluginCommand where
  "x_cmd = \<lparr>cmd_name = ''x-cmd'', cmd_description = ''the command of x''\<rparr>"

definition x_plugin :: GeminiPlugin where
  "x_plugin =
     \<lparr>metadata = Some x_metadata,
      onInstall = None, onUninstall = None, onEnable = None, onDisable = None,
      registerCommands = Some ([Register x_cmd], None),
      registerTools = None, registerThemes = None, registerExtensions = None\<rparr>"

definition x_dir :: "GeminiPlugin \<Rightarrow> plugin_dir" where
  "x_dir p =
     \<lparr>package_json = Some (Inr \<lparr>pj_metadata = x_metadata, pj_scripts_build = False\<rparr>),
      config_json = None,
      files = [(''index.js'', Inr [(''default'', \<lambda>context. Inr p)])]\<rparr>"

text \<open>
  A manager constructed on a plugin root that holds \<open>x\<close> (built as \<open>p\<close>) and an
  \<open>enabled.json\<close> with the names given, before and after \<open>loadPlugin\<close> of \<open>x\<close>.
\<close>

definition x_installed :: "GeminiPlugin \<Rightarrow> string list \<Rightarrow> PluginManager" where
  "x_installed p enabled =
     new_PluginManager ''/w'' (Some (JsonPlugins enabled)) [(''x'', x_dir p)] offline"

definition x_loaded :: "GeminiPlugin \<Rightarrow> string list \<Rightarrow> PluginManager" where
  "x_loaded p enabled = snd (loadPlugin ''x'' (x_installed p enabled))"

definition boom :: js_error where
  "boom = Error ''boom''"


section \<open>Evaluation rules\<close>

lemmas registry_defs =
  registerCommand_def unregisterCommand_def registerTool_def unregisterTool_def
  registerTheme_def unregisterTheme_def registerExtension_def unregisterExtension_def
  empty_registry_def unregisterPlugin_def unregister_entry_def capability_type_def
  capability_name_def delete_opt_def getPluginCapabilities_def collect_entry_def
  lookup_opt_def no_capabilities_def

lemmas load_defs =
  loadPlugin_def loadPlugin_try_def loadPluginConfig_def make_context_def
  implements_interface_def find_PluginClass_def registerPluginCapabilities_def
  run_registration_def run_calls_def validatePluginMetadata_def first_missing_def
  required_fields_def invoke_def failed_def path_join_def dirname_def Let_def

lemmas world_defs =
  x_installed_def x_loaded_def x_dir_def x_plugin_def x_metadata_def x_cmd_def offline_def
  new_PluginManager_def fresh_manager_def loadEnabledPlugins_def new_Set_def set_add_def
  boom_def

lemmas lifecycle_defs =
  enablePlugin_def disablePlugin_def uninstallPlugin_def uninstallPlugin_try_def
  saveEnabledPlugins_def installer_uninstall_def set_delete_def

lemmas installer_defs =
  installer_install_def installFromSource_def installFromLocalPath_def installFromUrl_def
  build_and_validate_def installFromNpm_def installFromNpm_try_def copy_into_def
  createMockPlugin_def mock_module_def mock_metadata_def mock_plugins_def
  validateInstallation_def mkdir_def succeeded_def empty_dir_def

section \<open>Enabling a plugin that is not loaded\<close>

text \<open>
  Claim C7. For every name that is not a key of the loaded-instance map, \<open>enable(name)\<close>
  resolves to \<open>false\<close> and leaves the whole state as it was: the EnabledSet in memory,
  the \<open>enabled.json\<close> file, and everything else.
\<close>

theorem enable_not_loaded:
  "map_of (plugins s) name = None \<Longrightarrow> enablePlugin name s = (Inr False, s)"
  by (simp add: enablePlugin_def)

theorem enable_not_loaded_witness:
  "map_of (plugins (x_installed x_plugin [''x''])) ''x'' = None
   \<and> enablePlugin ''x'' (x_installed x_plugin [''x''])
       = (Inr False, x_installed x_plugin [''x''])"
proof -
  have h: "map_of (plugins (x_installed x_plugin [''x''])) ''x'' = None"
    by (simp add: world_defs)
  from h enable_not_loaded [OF h] show ?thesis by simp
qed


section \<open>Uninstalling\<close>



text \<open>
  Claim C3, as amended. For every loaded plugin whose \<open>onUninstall\<close> hook throws,
  \<open>uninstall(name)\<close> resolves to \<open>false\<close>: the error is written to the console and
  nothing is cleaned up. The instance maps, the registry, the EnabledSet in memory and
  on disk and the plugin directory are as before, and the Installer is not called; the
  only trace is the hook call and the console line.
\<close>

theorem uninstall_hook_throws:
  assumes "map_of (plugins s) name = Some p" and "onUninstall p = Some (Throws e)"
  shows "uninstallPlugin name s =
     (Inr False,
      s\<lparr>calls := calls s @ [CallHook name ''onUninstall''],
        console := console s
          @ [ConsoleError (''Failed to uninstall plugin '' @ name @ '':'') e]\<rparr>)"
  using assms by (simp add: uninstallPlugin_def uninstallPlugin_try_def invoke_def)

text \<open>
  The claim as written (still \<open>true\<close>, name out of the EnabledSet, capabilities out of
  the registry, removal delegated) fails for the plugin \<open>x\<close> with a throwing
  \<open>onUninstall\<close>, loaded and enabled.
\<close>

theorem uninstall_hook_throws_counterexample:
  "map_of (plugins (x_loaded (x_plugin\<lparr>onUninstall := Some (Throws boom)\<rparr>) [''x''])) ''x''
     = Some (x_plugin\<lparr>onUninstall := Some (Throws boom)\<rparr>)
   \<and> fst (uninstallPlugin ''x''
          (x_loaded (x_plugin\<lparr>onUninstall := Some (Throws boom)\<rparr>) [''x'']))
     = Inr False
   \<and> ''x'' \<in> set (enabledPlugins (snd (uninstallPlugin ''x''
          (x_loaded (x_plugin\<lparr>onUninstall := Some (Throws boom)\<rparr>) [''x'']))))
   \<and> enabled_file (snd (uninstallPlugin ''x''
          (x_loaded (x_plugin\<lparr>onUninstall := Some (Throws boom)\<rparr>) [''x''])))
     = Some (JsonPlugins [''x''])
   \<and> map_of (commands (registry (snd (uninstallPlugin ''x''
          (x_loaded (x_plugin\<lparr>onUninstall := Some (Throws boom)\<rparr>) [''x''])))))
        ''x-cmd'' = Some x_cmd
   \<and> CallInstallerUninstall ''x'' \<notin> set (calls (snd (uninstallPlugin ''x''
          (x_loaded (x_plugin\<lparr>onUninstall := Some (Throws boom)\<rparr>) [''x'']))))"
  by (simp add: world_defs load_defs registry_defs lifecycle_defs)

theorem uninstall_hook_throws_witness:
  "map_of (plugins (x_loaded (x_plugin\<lparr>onUninstall := Some (Throws boom)\<rparr>) [''x''])) ''x''
     = Some (x_plugin\<lparr>onUninstall := Some (Throws boom)\<rparr>)
   \<and> onUninstall (x_plugin\<lparr>onUninstall := Some (Throws boom)\<rparr>) = Some (Throws boom)
   \<and> uninstallPlugin ''x'' (x_loaded (x_plugin\<lparr>onUninstall := Some (Throws boom)\<rparr>) [''x''])
     = (Inr False,
        (x_loaded (x_plugin\<lparr>onUninstall := Some (Throws boom)\<rparr>) [''x''])
          \<lparr>calls := [CallLoadPlugin ''x'', CallHook ''x'' ''onUninstall''],
           console := [ConsoleError ''Failed to uninstall plugin x:'' boom]\<rparr>)"
proof -
  have h1: "map_of (plugins (x_loaded (x_plugin\<lparr>onUninstall := Some (Throws boom)\<rparr>) [''x'']))
      ''x'' = Some (x_plugin\<lparr>onUninstall := Some (Throws boom)\<rparr>)"
    by (simp add: world_defs load_defs registry_defs)
  have h2: "onUninstall (x_plugin\<lparr>onUninstall := Some (Throws boom)\<rparr>) = Some (Throws boom)"
    by simp
  have c: "calls (x_loaded (x_plugin\<lparr>onUninstall := Some (Throws boom)\<rparr>) [''x''])
      = [CallLoadPlugin ''x'']"
    and d: "console (x_loaded (x_plugin\<lparr>onUninstall := Some (Throws boom)\<rparr>) [''x'']) = []"
    by (simp_all add: world_defs load_defs registry_defs)
  from h1 h2 uninstall_hook_throws [OF h1 h2] show ?thesis
    by (simp add: c d)
qed

section \<open>Failure to persist the EnabledSet\<close>




section \<open>Disable, then enable\<close>











section \<open>Loading\<close>

lemma loadPluginConfig_calls:
  "fst (loadPluginConfig name dir (s\<lparr>calls := cs\<rparr>)) = fst (loadPluginConfig name dir s)"
  "snd (loadPluginConfig name dir (s\<lparr>calls := cs\<rparr>))
     = (snd (loadPluginConfig name dir s))\<lparr>calls := cs\<rparr>"
  by (simp_all add: loadPluginConfig_def split: option.splits sum.splits)

lemma loadPluginConfig_frame:
  "pluginRoot (snd (loadPluginConfig name dir s)) = pluginRoot s"
  "plugins (snd (loadPluginConfig name dir s)) = plugins s"
  "pluginContexts (snd (loadPluginConfig name dir s)) = pluginContexts s"
  "registry (snd (loadPluginConfig name dir s)) = registry s"
  "enabledPlugins (snd (loadPluginConfig name dir s)) = enabledPlugins s"
  by (simp_all add: loadPluginConfig_def split: option.splits sum.splits)



section \<open>Reading the EnabledSet\<close>




section \<open>Ownership of registered capabilities\<close>

text \<open>
  Claim C1 does not hold of the code. Loading the plugin \<open>x\<close>, whose \<open>registerCommands\<close>
  hook registers the command \<open>x-cmd\<close>, succeeds and registers the command, but the
  ownership map records the owner \<open>unknown\<close>: \<open>capabilitiesOf(x)\<close> is empty, and the
  command is listed under the name \<open>unknown\<close> instead.
\<close>

theorem load_records_unknown_owner:
  "fst (loadPlugin ''x'' (x_installed x_plugin []))
     = \<lparr>success = True, plugin = Some x_plugin, error = None\<rparr>
   \<and> registry (x_loaded x_plugin [])
     = \<lparr>commands = [(''x-cmd'', x_cmd)], tools = [], themes = [], extensions = [],
        pluginOwnership = [(''command:x-cmd'', ''unknown'')]\<rparr>
   \<and> getPluginCapabilities ''x'' (registry (x_loaded x_plugin [])) = no_capabilities
   \<and> getPluginCapabilities ''unknown'' (registry (x_loaded x_plugin []))
     = \<lparr>cap_commands = [x_cmd], cap_tools = [], cap_themes = [], cap_extensions = []\<rparr>"
  by (simp add: world_defs load_defs registry_defs Let_def)

text \<open>
  More generally, every owner that the registry handles record is \<open>unknown\<close>, so after
  any load no plugin under another name is credited with a capability.
\<close>


lemma owners_update:
  "list_all (\<lambda>e. snd e = u) al \<Longrightarrow> list_all (\<lambda>e. snd e = u) (AList.update k u al)"
  by (induction al) auto

lemma owners_delete:
  "list_all P al \<Longrightarrow> list_all P (AList.delete k al)"
  by (induction al) auto

lemma register_owners:
  assumes "list_all (\<lambda>e. snd e = ''unknown'') (pluginOwnership r)"
  shows "list_all (\<lambda>e. snd e = ''unknown'') (pluginOwnership (registerCommand c r))"
    and "list_all (\<lambda>e. snd e = ''unknown'') (pluginOwnership (unregisterCommand n r))"
    and "list_all (\<lambda>e. snd e = ''unknown'') (pluginOwnership (registerTool t r))"
    and "list_all (\<lambda>e. snd e = ''unknown'') (pluginOwnership (unregisterTool n r))"
    and "list_all (\<lambda>e. snd e = ''unknown'') (pluginOwnership (registerTheme th r))"
    and "list_all (\<lambda>e. snd e = ''unknown'') (pluginOwnership (unregisterTheme n r))"
    and "list_all (\<lambda>e. snd e = ''unknown'') (pluginOwnership (registerExtension x r))"
    and "list_all (\<lambda>e. snd e = ''unknown'') (pluginOwnership (unregisterExtension n r))"
  using assms
  by (simp_all add: registerCommand_def unregisterCommand_def registerTool_def unregisterTool_def
      registerTheme_def unregisterTheme_def registerExtension_def unregisterExtension_def
      owners_update owners_delete)

lemma run_calls_owners:
  assumes reg: "\<And>c r. list_all (\<lambda>e. snd e = ''unknown'') (pluginOwnership r)
            \<Longrightarrow> list_all (\<lambda>e. snd e = ''unknown'') (pluginOwnership (reg c r))"
    and unreg: "\<And>n r. list_all (\<lambda>e. snd e = ''unknown'') (pluginOwnership r)
            \<Longrightarrow> list_all (\<lambda>e. snd e = ''unknown'') (pluginOwnership (unreg n r))"
  shows "list_all (\<lambda>e. snd e = ''unknown'') (pluginOwnership r)
    \<Longrightarrow> list_all (\<lambda>e. snd e = ''unknown'') (pluginOwnership (run_calls reg unreg cs r))"
  unfolding run_calls_def
proof (induction cs arbitrary: r)
  case Nil
  then show ?case by simp
next
  case (Cons c cs)
  then show ?case by (cases c) (simp_all add: reg unreg)
qed

lemma run_registration_owners:
  assumes reg: "\<And>c r. list_all (\<lambda>e. snd e = ''unknown'') (pluginOwnership r)
            \<Longrightarrow> list_all (\<lambda>e. snd e = ''unknown'') (pluginOwnership (reg c r))"
    and unreg: "\<And>n r. list_all (\<lambda>e. snd e = ''unknown'') (pluginOwnership r)
            \<Longrightarrow> list_all (\<lambda>e. snd e = ''unknown'') (pluginOwnership (unreg n r))"
    and "list_all (\<lambda>e. snd e = ''unknown'') (pluginOwnership r)"
  shows "list_all (\<lambda>e. snd e = ''unknown'')
           (pluginOwnership (snd (run_registration reg unreg hook r)))"
  using assms(3) by (cases hook) (simp_all add: run_registration_def run_calls_owners [OF reg unreg])

lemma registerPluginCapabilities_owners:
  assumes "list_all (\<lambda>e. snd e = ''unknown'') (pluginOwnership r)"
  shows "list_all (\<lambda>e. snd e = ''unknown'')
           (pluginOwnership (snd (registerPluginCapabilities p r)))"
proof -
  let ?c = "run_registration registerCommand unregisterCommand (registerCommands p) r"
  let ?t = "run_registration registerTool unregisterTool (registerTools p) (snd ?c)"
  let ?h = "run_registration registerTheme unregisterTheme (registerThemes p) (snd ?t)"
  let ?x = "run_registration registerExtension unregisterExtension (registerExtensions p) (snd ?h)"
  have c: "list_all (\<lambda>e. snd e = ''unknown'') (pluginOwnership (snd ?c))"
    by (rule run_registration_owners [OF register_owners(1,2) assms])
  have t: "list_all (\<lambda>e. snd e = ''unknown'') (pluginOwnership (snd ?t))"
    by (rule run_registration_owners [OF register_owners(3,4) c])
  have h: "list_all (\<lambda>e. snd e = ''unknown'') (pluginOwnership (snd ?h))"
    by (rule run_registration_owners [OF register_owners(5,6) t])
  have x: "list_all (\<lambda>e. snd e = ''unknown'') (pluginOwnership (snd ?x))"
    by (rule run_registration_owners [OF register_owners(7,8) h])
  have "snd (registerPluginCapabilities p r) \<in> {snd ?c, snd ?t, snd ?h, snd ?x}"
    by (simp add: registerPluginCapabilities_def split: prod.splits option.splits)
  with c t h x show ?thesis by auto
qed

lemma registerPluginCapabilities_owners':
  "registerPluginCapabilities p r = (err, r')
   \<Longrightarrow> list_all (\<lambda>e. snd e = ''unknown'') (pluginOwnership r)
   \<Longrightarrow> list_all (\<lambda>e. snd e = ''unknown'') (pluginOwnership r')"
  using registerPluginCapabilities_owners [of r p] by simp

lemma loadPlugin_owners:
  assumes "list_all (\<lambda>e. snd e = ''unknown'') (pluginOwnership (registry s))"
  shows "list_all (\<lambda>e. snd e = ''unknown'')
           (pluginOwnership (registry (snd (loadPlugin name s))))"
  using assms
  by (auto simp add: loadPlugin_def loadPlugin_try_def Let_def loadPluginConfig_calls
      loadPluginConfig_frame invoke_def
      dest: registerPluginCapabilities_owners'
      split: option.splits sum.splits prod.splits hook_result.splits)

lemma capabilities_of_stranger:
  assumes "list_all (\<lambda>e. snd e \<noteq> name) al"
  shows "fold (collect_entry r name) al acc = acc"
  using assms by (induction al arbitrary: acc) (simp_all add: collect_entry_def)

lemma load_capabilities_empty:
  assumes "list_all (\<lambda>e. snd e = ''unknown'') (pluginOwnership (registry s))"
    and "name \<noteq> ''unknown''"
  shows "getPluginCapabilities name (registry (snd (loadPlugin name' s))) = no_capabilities"
proof -
  have "list_all (\<lambda>e. snd e = ''unknown'') (pluginOwnership (registry (snd (loadPlugin name' s))))"
    by (rule loadPlugin_owners [OF assms(1)])
  then have "list_all (\<lambda>e. snd e \<noteq> name) (pluginOwnership (registry (snd (loadPlugin name' s))))"
    using assms(2) by (auto simp add: list_all_iff)
  then show ?thesis
    by (simp add: getPluginCapabilities_def capabilities_of_stranger)
qed



section \<open>Revoking by owner\<close>

text \<open>
  Claim C5 does not hold of the code for a capability whose name contains a colon.
  The command \<open>git:status\<close> is registered under the key \<open>command:git:status\<close>;
  \<open>unregisterPlugin\<close> of its owner splits the key at every colon, deletes the command
  \<open>git\<close> (there is none) and the ownership entry, and leaves the command
  \<open>git:status\<close> registered without an owner.
\<close>

theorem revoke_leaves_colon_name:
  "registerCommand \<lparr>cmd_name = ''git:status'', cmd_description = ''d''\<rparr> empty_registry
     = \<lparr>commands = [(''git:status'', \<lparr>cmd_name = ''git:status'', cmd_description = ''d''\<rparr>)],
        tools = [], themes = [], extensions = [],
        pluginOwnership = [(''command:git:status'', ''unknown'')]\<rparr>
   \<and> unregisterPlugin ''unknown''
       (registerCommand \<lparr>cmd_name = ''git:status'', cmd_description = ''d''\<rparr> empty_registry)
     = \<lparr>commands = [(''git:status'', \<lparr>cmd_name = ''git:status'', cmd_description = ''d''\<rparr>)],
        tools = [], themes = [], extensions = [], pluginOwnership = []\<rparr>"
  by (simp add: registry_defs)

text \<open>
  For a registry whose ownership keys are well formed, \<open>unregisterPlugin\<close> does what
  the claim says: it removes the ownership entries of the owner and the capabilities
  those entries name, and nothing else.
\<close>

lemma split_colon_nonempty: "split_colon xs \<noteq> []"
  by (induction xs) (auto split: list.splits)

lemma split_colon_single: "split_colon xs = [c] \<Longrightarrow> xs = c"
proof (induction xs arbitrary: c)
  case Nil
  then show ?case by simp
next
  case (Cons x xs)
  then show ?case by (auto simp add: split_colon_nonempty split: if_splits list.splits)
qed

lemma split_colon_pair: "split_colon k = [t, c] \<Longrightarrow> k = t @ CHR '':'' # c"
proof (induction k arbitrary: t)
  case Nil
  then show ?case by simp
next
  case (Cons x xs)
  show ?case
  proof (cases "x = CHR '':''")
    case True
    with Cons.prems have "t = []" and "split_colon xs = [c]" by simp_all
    with True show ?thesis by (simp add: split_colon_single)
  next
    case False
    with Cons.prems obtain w where "t = x # w" and "split_colon xs = [w, c]"
      by (auto simp add: split_colon_nonempty split: list.splits)
    with Cons.IH [of w] show ?thesis by simp
  qed
qed

lemma split_colon_prefix:
  "CHR '':'' \<notin> set a \<Longrightarrow> split_colon (a @ CHR '':'' # b) = a # split_colon b"
  by (induction a) auto

lemma split_colon_kind:
  assumes "CHR '':'' \<notin> set kind" and "split_colon (kind @ CHR '':'' # c) = [t, c']"
  shows "t = kind \<and> c' = c"
  using assms by (auto simp add: split_colon_prefix dest: split_colon_single)

lemma unregister_entry_fields:
  assumes "well_formed_key (fst x)"
  shows "commands (unregister_entry n x r)
           = filter (\<lambda>e. \<not> (snd x = n \<and> split_colon (fst x) = [''command'', fst e])) (commands r)"
    and "tools (unregister_entry n x r)
           = filter (\<lambda>e. \<not> (snd x = n \<and> split_colon (fst x) = [''tool'', fst e])) (tools r)"
    and "themes (unregister_entry n x r)
           = filter (\<lambda>e. \<not> (snd x = n \<and> split_colon (fst x) = [''theme'', fst e])) (themes r)"
    and "extensions (unregister_entry n x r)
           = filter (\<lambda>e. \<not> (snd x = n \<and> split_colon (fst x) = [''extension'', fst e]))
               (extensions r)"
    and "pluginOwnership (unregister_entry n x r)
           = filter (\<lambda>e. \<not> (snd x = n \<and> fst e = fst x)) (pluginOwnership r)"
proof -
  from assms obtain t c where s: "split_colon (fst x) = [t, c]" and t: "t \<in> set capability_kinds"
    by (auto simp add: well_formed_key_def split: list.splits)
  have del: "\<And>k al. AList.delete k al = filter (\<lambda>e. fst e \<noteq> k) al"
    by (simp add: AList.delete_eq case_prod_beta' cong: filter_cong) metis
  show "commands (unregister_entry n x r)
           = filter (\<lambda>e. \<not> (snd x = n \<and> split_colon (fst x) = [''command'', fst e])) (commands r)"
    using s t
    by (auto simp add: unregister_entry_def Let_def capability_type_def capability_name_def
        delete_opt_def del capability_kinds_def intro!: filter_cong)
  show "tools (unregister_entry n x r)
           = filter (\<lambda>e. \<not> (snd x = n \<and> split_colon (fst x) = [''tool'', fst e])) (tools r)"
    using s t
    by (auto simp add: unregister_entry_def Let_def capability_type_def capability_name_def
        delete_opt_def del capability_kinds_def intro!: filter_cong)
  show "themes (unregister_entry n x r)
           = filter (\<lambda>e. \<not> (snd x = n \<and> split_colon (fst x) = [''theme'', fst e])) (themes r)"
    using s t
    by (auto simp add: unregister_entry_def Let_def capability_type_def capability_name_def
        delete_opt_def del capability_kinds_def intro!: filter_cong)
  show "extensions (unregister_entry n x r)
           = filter (\<lambda>e. \<not> (snd x = n \<and> split_colon (fst x) = [''extension'', fst e]))
               (extensions r)"
    using s t
    by (auto simp add: unregister_entry_def Let_def capability_type_def capability_name_def
        delete_opt_def del capability_kinds_def intro!: filter_cong)
  show "pluginOwnership (unregister_entry n x r)
           = filter (\<lambda>e. \<not> (snd x = n \<and> fst e = fst x)) (pluginOwnership r)"
    using s t
    by (auto simp add: unregister_entry_def Let_def capability_type_def capability_name_def
        delete_opt_def del capability_kinds_def intro!: filter_cong)
qed


lemma fold_unregister_fields:
  assumes "list_all (\<lambda>x. well_formed_key (fst x)) xs"
  shows "commands (fold (unregister_entry n) xs r)
           = filter (\<lambda>e. \<not> (\<exists>x\<in>set xs. snd x = n \<and> split_colon (fst x) = [''command'', fst e]))
               (commands r)
    \<and> tools (fold (unregister_entry n) xs r)
           = filter (\<lambda>e. \<not> (\<exists>x\<in>set xs. snd x = n \<and> split_colon (fst x) = [''tool'', fst e]))
               (tools r)
    \<and> themes (fold (unregister_entry n) xs r)
           = filter (\<lambda>e. \<not> (\<exists>x\<in>set xs. snd x = n \<and> split_colon (fst x) = [''theme'', fst e]))
               (themes r)
    \<and> extensions (fold (unregister_entry n) xs r)
           = filter (\<lambda>e. \<not> (\<exists>x\<in>set xs. snd x = n \<and> split_colon (fst x) = [''extension'', fst e]))
               (extensions r)
    \<and> pluginOwnership (fold (unregister_entry n) xs r)
           = filter (\<lambda>e. \<not> (\<exists>x\<in>set xs. snd x = n \<and> fst e = fst x)) (pluginOwnership r)"
  using assms
proof (induction xs arbitrary: r)
  case Nil
  then show ?case by simp
next
  case (Cons x xs)
  from Cons.prems have wx: "well_formed_key (fst x)"
    and wxs: "list_all (\<lambda>x. well_formed_key (fst x)) xs"
    by simp_all
  note ih = Cons.IH [OF wxs, of "unregister_entry n x r"]
  note step = unregister_entry_fields [OF wx, of n r]
  show ?case
    by (simp add: ih step)
qed

lemma unregisterPlugin_well_formed:
  assumes d: "distinct (map fst (pluginOwnership r))"
    and w: "list_all (\<lambda>x. well_formed_key (fst x)) (pluginOwnership r)"
  shows "pluginOwnership (unregisterPlugin n r) = filter (\<lambda>e. snd e \<noteq> n) (pluginOwnership r)"
    and "commands (unregisterPlugin n r)
           = filter (\<lambda>e. (''command:'' @ fst e, n) \<notin> set (pluginOwnership r)) (commands r)"
    and "tools (unregisterPlugin n r)
           = filter (\<lambda>e. (''tool:'' @ fst e, n) \<notin> set (pluginOwnership r)) (tools r)"
    and "themes (unregisterPlugin n r)
           = filter (\<lambda>e. (''theme:'' @ fst e, n) \<notin> set (pluginOwnership r)) (themes r)"
    and "extensions (unregisterPlugin n r)
           = filter (\<lambda>e. (''extension:'' @ fst e, n) \<notin> set (pluginOwnership r)) (extensions r)"
proof -
  note f = fold_unregister_fields [OF w, of n r]
  have key: "\<And>kind c. CHR '':'' \<notin> set kind \<Longrightarrow>
      (\<exists>x\<in>set (pluginOwnership r). snd x = n \<and> split_colon (fst x) = [kind, c])
      \<longleftrightarrow> (kind @ CHR '':'' # c, n) \<in> set (pluginOwnership r)"
  proof
    fix kind c
    assume "\<exists>x\<in>set (pluginOwnership r). snd x = n \<and> split_colon (fst x) = [kind, c]"
    then obtain x where x: "x \<in> set (pluginOwnership r)" "snd x = n"
      "split_colon (fst x) = [kind, c]" by blast
    from split_colon_pair [OF x(3)] x(2) have "x = (kind @ CHR '':'' # c, n)"
      by (cases x) simp
    with x(1) show "(kind @ CHR '':'' # c, n) \<in> set (pluginOwnership r)" by simp
  next
    fix kind c
    assume k: "CHR '':'' \<notin> set kind"
      and m: "(kind @ CHR '':'' # c, n) \<in> set (pluginOwnership r)"
    from w m have "well_formed_key (kind @ CHR '':'' # c)"
      by (auto simp add: list_all_iff)
    then obtain t c' where "split_colon (kind @ CHR '':'' # c) = [t, c']"
      by (auto simp add: well_formed_key_def split: list.splits)
    with split_colon_kind [OF k this] have "split_colon (kind @ CHR '':'' # c) = [kind, c]"
      by simp
    with m show "\<exists>x\<in>set (pluginOwnership r). snd x = n \<and> split_colon (fst x) = [kind, c]"
      by force
  qed
  have own: "\<And>e. e \<in> set (pluginOwnership r) \<Longrightarrow>
      (\<exists>x\<in>set (pluginOwnership r). snd x = n \<and> fst e = fst x) \<longleftrightarrow> snd e = n"
    using d by (metis eq_key_imp_eq_value prod.collapse)
  show "pluginOwnership (unregisterPlugin n r) = filter (\<lambda>e. snd e \<noteq> n) (pluginOwnership r)"
    using f own by (simp add: unregisterPlugin_def cong: filter_cong)
  show "commands (unregisterPlugin n r)
           = filter (\<lambda>e. (''command:'' @ fst e, n) \<notin> set (pluginOwnership r)) (commands r)"
    using f key [of "''command''"] by (simp add: unregisterPlugin_def)
  show "tools (unregisterPlugin n r)
           = filter (\<lambda>e. (''tool:'' @ fst e, n) \<notin> set (pluginOwnership r)) (tools r)"
    using f key [of "''tool''"] by (simp add: unregisterPlugin_def)
  show "themes (unregisterPlugin n r)
           = filter (\<lambda>e. (''theme:'' @ fst e, n) \<notin> set (pluginOwnership r)) (themes r)"
    using f key [of "''theme''"] by (simp add: unregisterPlugin_def)
  show "extensions (unregisterPlugin n r)
           = filter (\<lambda>e. (''extension:'' @ fst e, n) \<notin> set (pluginOwnership r)) (extensions r)"
    using f key [of "''extension''"] by (simp add: unregisterPlugin_def)
qed

text \<open>
  Registering under a name without a colon writes a well-formed key, so the registries
  built from such names are covered.
\<close>

lemma split_colon_no_colon: "CHR '':'' \<notin> set c \<Longrightarrow> split_colon c = [c]"
  by (induction c) auto

lemma well_formed_key_kind:
  assumes "kind \<in> set capability_kinds" and "CHR '':'' \<notin> set c"
  shows "well_formed_key (kind @ CHR '':'' # c)"
proof -
  from assms(1) have "CHR '':'' \<notin> set kind"
    by (auto simp add: capability_kinds_def)
  then have "split_colon (kind @ CHR '':'' # c) = [kind, c]"
    using assms(2) by (simp add: split_colon_prefix split_colon_no_colon)
  with assms(1) show ?thesis
    by (simp add: well_formed_key_def)
qed

lemma set_update_subset: "set (AList.update k v al) \<subseteq> insert (k, v) (set al)"
  by (induction al) auto

lemma registerCommand_well_formed:
  assumes "distinct (map fst (pluginOwnership r))"
    and "list_all (\<lambda>x. well_formed_key (fst x)) (pluginOwnership r)"
    and "CHR '':'' \<notin> set (cmd_name c)"
  shows "distinct (map fst (pluginOwnership (registerCommand c r)))"
    and "list_all (\<lambda>x. well_formed_key (fst x)) (pluginOwnership (registerCommand c r))"
proof -
  have k: "well_formed_key (''command:'' @ cmd_name c)"
    using well_formed_key_kind [of "''command''" "cmd_name c"] assms(3)
    by (simp add: capability_kinds_def)
  show "distinct (map fst (pluginOwnership (registerCommand c r)))"
    using assms(1) by (simp add: registerCommand_def AList.distinct_update)
  have "set (AList.update (''command:'' @ cmd_name c) ''unknown'' (pluginOwnership r))
      \<subseteq> insert (''command:'' @ cmd_name c, ''unknown'') (set (pluginOwnership r))"
    by (rule set_update_subset)
  with assms(2) k
  show "list_all (\<lambda>x. well_formed_key (fst x)) (pluginOwnership (registerCommand c r))"
    by (auto simp add: registerCommand_def list_all_iff)
qed

section \<open>Installing\<close>

text \<open>
  Claim C2 does not hold of the code. \<open>installPlugin\<close> loads only when the Installer's
  result has both \<open>success\<close> and a \<open>plugin\<close>, and no return of the Installer sets
  \<open>plugin\<close>. Installing the mock plugin \<open>pip-analyzer\<close> on an empty plugin root
  succeeds and puts the plugin on disk, and \<open>loadPlugin\<close> is not called: the call record
  and the instance map stay empty.
\<close>

theorem install_success_without_load:
  "fst (installPlugin ''pip-analyzer'' None (new_PluginManager ''/w'' None [] offline))
     = \<lparr>success = True, plugin = None, error = None\<rparr>
   \<and> calls (snd (installPlugin ''pip-analyzer'' None (new_PluginManager ''/w'' None [] offline)))
     = []
   \<and> plugins (snd (installPlugin ''pip-analyzer'' None (new_PluginManager ''/w'' None [] offline)))
     = []
   \<and> map_of (plugin_dirs (snd (installPlugin ''pip-analyzer'' None
         (new_PluginManager ''/w'' None [] offline)))) ''pip-analyzer''
     = Some \<lparr>package_json = Some (Inr \<lparr>pj_metadata = mock_metadata ''pip-analyzer'',
                                        pj_scripts_build = False\<rparr>),
             config_json = None,
             files = [(''index.js'', Inr (mock_module ''pip-analyzer'')),
                      (''README.md'', Inl (Error ''ERR_UNKNOWN_FILE_EXTENSION''))]\<rparr>"
  by (simp add: installPlugin_def installer_install_def installFromNpm_def installFromNpm_try_def
      mkdir_def createMockPlugin_def mock_plugins_def succeeded_def empty_dir_def
      new_PluginManager_def fresh_manager_def loadEnabledPlugins_def Let_def)

text \<open>
  The plugin that this install left on disk loads when \<open>loadPlugin\<close> is called on it.
\<close>

lemma installed_mock_plugin_loads:
  "success (fst (loadPlugin ''pip-analyzer''
     (snd (installPlugin ''pip-analyzer'' None (new_PluginManager ''/w'' None [] offline)))))"
  by (simp add: installPlugin_def installer_defs load_defs registry_defs
      new_PluginManager_def fresh_manager_def loadEnabledPlugins_def)

text \<open>
  For every name, source and state, \<open>installPlugin\<close> is the Installer's \<open>install\<close> and
  nothing more; in particular the Installer's result, with its error, is returned as it
  is, and there is no load after a failure either.
\<close>

lemma validateInstallation_no_plugin: "plugin (validateInstallation n s) = None"
  by (simp add: validateInstallation_def failed_def succeeded_def split: option.splits sum.splits)

lemma createMockPlugin_no_plugin: "plugin (fst (createMockPlugin n s)) = None"
  by (simp add: createMockPlugin_def failed_def succeeded_def split: option.splits)

lemma installFromNpm_no_plugin: "plugin (fst (installFromNpm n s)) = None"
  by (simp add: installFromNpm_def installFromNpm_try_def failed_def createMockPlugin_no_plugin
      validateInstallation_no_plugin copy_into_def
      split: option.splits sum.splits prod.splits)

lemma build_and_validate_no_plugin:
  "build_and_validate n s = (Inr r, s') \<Longrightarrow> plugin r = None"
  by (auto simp add: build_and_validate_def validateInstallation_no_plugin Let_def
      split: option.splits sum.splits if_splits)

lemma installFromUrl_no_plugin: "plugin (fst (installFromUrl n u s)) = None"
  by (auto simp add: installFromUrl_def failed_def dest: build_and_validate_no_plugin
      split: option.splits sum.splits prod.splits)

lemma installFromLocalPath_no_plugin: "plugin (fst (installFromLocalPath n u s)) = None"
  by (auto simp add: installFromLocalPath_def failed_def copy_into_def dest: build_and_validate_no_plugin
      split: option.splits sum.splits prod.splits)

lemma installFromSource_no_plugin: "plugin (fst (installFromSource n src s)) = None"
  by (simp add: installFromSource_def failed_def installFromNpm_no_plugin installFromUrl_no_plugin
      installFromLocalPath_no_plugin split: option.splits prod.splits)

lemma installer_install_no_plugin: "plugin (fst (installer_install n src s)) = None"
  by (simp add: installer_install_def failed_def installFromNpm_no_plugin installFromSource_no_plugin
      split: option.splits prod.splits)

lemma installPlugin_never_loads: "installPlugin n src s = installer_install n src s"
  by (simp add: installPlugin_def Let_def installer_install_no_plugin)

end
